theory Spec2Isabelle
  imports Main "HOL-Library.Char_ord" "HOL-Library.List_Lexorder" "HOL-Library.Product_Lexorder"
    "HOL-Library.Multiset"
begin

section \<open>Strings and characters\<close>

text \<open>
  A Python string is modelled as a \<open>string\<close>, one \<open>char\<close> per code point, so the
  model covers the code points 0 to 255. Python compares one-character strings by code
  point and longer strings lexicographically, a proper prefix being smaller: this is the
  order of \<open>Char_ord\<close> and \<open>List_Lexorder\<close>.
\<close>

text \<open>\<^verbatim>\<open>s[i:j]\<close> for \<open>0 \<le> i \<le> j\<close>: the slice is cut at the end of the string.\<close>

definition slice :: "string \<Rightarrow> nat \<Rightarrow> nat \<Rightarrow> string" where
  "slice s i j = take (j - i) (drop i s)"

text \<open>
  \<^verbatim>\<open>str.lower()\<close> on one character: the letters A to Z, and the upper-case letters
  of the range 192 to 222 (all but the multiplication sign 215), move up by 32.
\<close>

definition lower_char :: "char \<Rightarrow> char" where
  "lower_char c =
     (let n = (of_char c :: nat)
      in if (65 \<le> n \<and> n \<le> 90) \<or> (192 \<le> n \<and> n \<le> 222 \<and> n \<noteq> 215)
         then char_of (n + 32) else c)"

section \<open>Identifier normalisation: \<open>strictwwid\<close> and \<open>loosewwid\<close>\<close>

text \<open>
  Both functions print one message and return \<^verbatim>\<open>None\<close> on failure. The model returns
  the kind of message printed as the error value.
\<close>

datatype wwid_error =
    InvalidLength      \<comment> \<open>\<^verbatim>\<open>WWID has invalid length\<close>\<close>
  | ColonMisplaced     \<comment> \<open>\<^verbatim>\<open>WWID invalid format - colon not where expected\<close>\<close>
  | InvalidHexChar     \<comment> \<open>\<^verbatim>\<open>WWID has invalid hex character\<close>\<close>

text \<open>The test of one nibble in the loop of \<open>strictwwid\<close>.\<close>

definition bad_nibble :: "char \<Rightarrow> bool" where
  "bad_nibble nibble \<longleftrightarrow>
     (nibble < CHR ''0'' \<or> nibble > CHR ''f'') \<or> (nibble > CHR ''9'' \<and> nibble < CHR ''a'')"

text \<open>\<^verbatim>\<open>for nibble in hexwid\<close>: the first bad nibble returns; \<open>True\<close> when the loop ends.\<close>

fun nibble_loop :: "string \<Rightarrow> bool" where
  "nibble_loop [] = True"
| "nibble_loop (nibble # rest) = (if bad_nibble nibble then False else nibble_loop rest)"

definition strictwwid :: "string \<Rightarrow> wwid_error + string" where
  "strictwwid wwid =
     (if length wwid \<noteq> 23 then Inl InvalidLength
      else if slice wwid 2 3 \<noteq> '':'' \<and> slice wwid 5 6 \<noteq> '':'' \<and> slice wwid 8 9 \<noteq> '':''
              \<and> slice wwid 11 12 \<noteq> '':'' \<and> slice wwid 14 15 \<noteq> '':''
              \<and> slice wwid 17 18 \<noteq> '':'' \<and> slice wwid 20 21 \<noteq> '':''
      then Inl ColonMisplaced
      else
        let hexwid = slice wwid 0 2 @ slice wwid 3 5 @ slice wwid 6 8 @ slice wwid 9 11
                     @ slice wwid 12 14 @ slice wwid 15 17 @ slice wwid 18 20 @ slice wwid 21 23
        in if nibble_loop hexwid then Inr wwid else Inl InvalidHexChar)"

text \<open>The test that keeps a character in the loop of \<open>loosewwid\<close>.\<close>

definition keep_char :: "char \<Rightarrow> bool" where
  "keep_char userchar \<longleftrightarrow>
     (userchar \<ge> CHR ''0'' \<and> userchar \<le> CHR ''9'') \<or> (userchar \<ge> CHR ''a'' \<and> userchar \<le> CHR ''f'')"

text \<open>\<^verbatim>\<open>for userchar in wwid\<close>, with the accumulator \<open>hexstring\<close>.\<close>

fun loose_loop :: "string \<Rightarrow> string \<Rightarrow> string" where
  "loose_loop hexstring [] = hexstring"
| "loose_loop hexstring (c # rest) =
     (let userchar = lower_char c
      in if keep_char userchar then loose_loop (hexstring @ [userchar]) rest
         else loose_loop hexstring rest)"

definition brocadefmt :: "string \<Rightarrow> string" where
  "brocadefmt hexstring =
     slice hexstring 0 2 @ '':'' @ slice hexstring 2 4 @ '':'' @ slice hexstring 4 6 @ '':''
     @ slice hexstring 6 8 @ '':'' @ slice hexstring 8 10 @ '':'' @ slice hexstring 10 12 @ '':''
     @ slice hexstring 12 14 @ '':'' @ slice hexstring 14 16"

definition loosewwid :: "string \<Rightarrow> wwid_error + string" where
  "loosewwid wwid =
     (let hexstring = loose_loop [] wwid
      in if length hexstring \<noteq> 16 then Inl InvalidLength else Inr (brocadefmt hexstring))"

section \<open>Rows and alias names\<close>

text \<open>
  An entry of \<open>all_fab\<close> is the six-element list
  \<^verbatim>\<open>[node, primaryif, subif, fabric, initgt, wwpn]\<close>, read by the indices 0 to 5.
\<close>

record row =
  node :: string
  primaryif :: string
  subif :: string
  fabric :: string
  initgt :: string
  wwpn :: string

definition alias_format :: "row \<Rightarrow> string" where
  "alias_format linelist =
     (let ali = ''ali_'' @ node linelist;
          ali = (if primaryif linelist \<noteq> [] then ali @ ''_'' @ primaryif linelist else ali);
          ali = (if subif linelist \<noteq> [] then ali @ ''_'' @ subif linelist else ali)
      in ali @ ''_F'' @ fabric linelist)"

section \<open>Validation (sections 1 and 2 of the script)\<close>

text \<open>
  Every error the script reports is a \<^verbatim>\<open>print\<close> together with
  \<^verbatim>\<open>errors_found = True\<close>. The model keeps the flag and the list of reports.
\<close>

datatype message =
    WwidRejected wwid_error string
  | InvalidInitTgt string              \<comment> \<open>\<^verbatim>\<open>Invalid Initiator/Target value - must be I or T\<close>\<close>
  | InvalidFabric string               \<comment> \<open>\<^verbatim>\<open>Fabric identifier must be A or B\<close>\<close>
  | DuplicateWwpn string               \<comment> \<open>\<^verbatim>\<open>Duplicate wwpn found\<close>\<close>
  | DuplicateName string string string \<comment> \<open>\<^verbatim>\<open>Duplicate name found:\<close>\<close>
  | CableMisconfiguration "row option" row
      \<comment> \<open>\<^verbatim>\<open>Possible cable misconfiguration detected\<close>, with \<open>last_devrow\<close> and \<open>devrow\<close>\<close>

text \<open>
  The script assigns \<open>dupnam_error\<close> in the duplicate-name loop and reads
  \<open>dupname_error\<close> before the cable check: two variables, both kept.
\<close>

record vstate =
  errors_found :: bool
  wwidct :: nat
  dupname_error :: bool
  dupnam_error :: bool
  printed :: "message list"

definition initial_vstate :: vstate where
  "initial_vstate =
     \<lparr>errors_found = False, wwidct = 0, dupname_error = False, dupnam_error = False,
      printed = []\<rparr>"

definition report :: "message \<Rightarrow> vstate \<Rightarrow> vstate" where
  "report m st = st\<lparr>errors_found := True, printed := printed st @ [m]\<rparr>"

text \<open>The role and fabric tests of one row; \<open>w\<close> is the local variable \<open>wwpn\<close>.\<close>

definition check_fields :: "row \<Rightarrow> string \<Rightarrow> vstate \<Rightarrow> vstate" where
  "check_fields rec w st =
     (if initgt rec \<noteq> ''I'' \<and> initgt rec \<noteq> ''T'' then report (InvalidInitTgt w) st
      else if fabric rec \<noteq> ''A'' \<and> fabric rec \<noteq> ''B'' then report (InvalidFabric w) st
      else st\<lparr>wwidct := wwidct st + 1\<rparr>)"

text \<open>
  The body of \<^verbatim>\<open>for rec in all_fab\<close>. Under loose checking the accepted identifier
  is assigned to the local \<open>wwpn\<close> only; the row itself is not written.
\<close>

definition check_row :: "string \<Rightarrow> row \<Rightarrow> vstate \<Rightarrow> vstate" where
  "check_row strict rec st =
     (if strict = ''S'' then
        (case strictwwid (wwpn rec) of
           Inl e \<Rightarrow> report (WwidRejected e (wwpn rec)) st
         | Inr wwidok \<Rightarrow> check_fields rec (wwpn rec) st)
      else
        (case loosewwid (wwpn rec) of
           Inl e \<Rightarrow> report (WwidRejected e (wwpn rec)) st
         | Inr wwidok \<Rightarrow> check_fields rec wwidok st))"

text \<open>Section 2a: the loop over the list sorted on \<open>wwpn\<close>.\<close>

fun wwpn_loop :: "string \<Rightarrow> row list \<Rightarrow> vstate \<Rightarrow> vstate" where
  "wwpn_loop last_wwpn [] st = st"
| "wwpn_loop last_wwpn (devrow # rest) st =
     (let dr_wwpn = wwpn devrow
      in if dr_wwpn \<noteq> last_wwpn then wwpn_loop dr_wwpn rest st
         else wwpn_loop last_wwpn rest (report (DuplicateWwpn dr_wwpn) st))"

text \<open>\<^verbatim>\<open>"{:<10}".format(s)\<close>: blanks on the right up to width 10, nothing cut.\<close>

definition pad10 :: "string \<Rightarrow> string" where
  "pad10 s = s @ replicate (10 - length s) CHR '' ''"

definition sort_cabkeys :: "row \<Rightarrow> string" where
  "sort_cabkeys cabval =
     pad10 (node cabval) @ pad10 (primaryif cabval) @ pad10 (subif cabval) @ wwpn cabval"

text \<open>Section 2b: the duplicate-name loop, with the previous row's three names.\<close>

fun name_loop :: "string \<Rightarrow> string \<Rightarrow> string \<Rightarrow> row list \<Rightarrow> vstate \<Rightarrow> vstate" where
  "name_loop prv_node prv_iface prv_subif [] st = st"
| "name_loop prv_node prv_iface prv_subif (devrow # rest) st =
     (let st' =
        (if node devrow = prv_node \<and> primaryif devrow = prv_iface \<and> subif devrow = prv_subif
         then (report (DuplicateName (node devrow) (primaryif devrow) (subif devrow)) st)
                \<lparr>dupnam_error := True\<rparr>
         else st)
      in name_loop (node devrow) (primaryif devrow) (subif devrow) rest st')"

text \<open>The cable check: \<open>fabriccmp\<close> starts as one blank, \<open>last_devrow\<close> as no row.\<close>

fun cable_loop :: "string \<Rightarrow> row option \<Rightarrow> row list \<Rightarrow> vstate \<Rightarrow> vstate" where
  "cable_loop fabriccmp last_devrow [] st = st"
| "cable_loop fabriccmp last_devrow (devrow # rest) st =
     (let st' = (if fabric devrow = fabriccmp
                 then report (CableMisconfiguration last_devrow devrow) st else st)
      in cable_loop (fabric devrow) (Some devrow) rest st')"

text \<open>
  Sections 1, 2a and 2b and the cable check, in order. The result is \<open>all_fab\<close> as the last sort leaves it
  and the state at the test of \<open>errors_found\<close>. Python's sort is stable, as
  \<open>sort_key\<close> is.
\<close>

definition validate :: "string \<Rightarrow> string \<Rightarrow> row list \<Rightarrow> row list \<times> vstate" where
  "validate strict cabchk all_fab =
     (let st1 = fold (check_row strict) all_fab initial_vstate;
          all_fab1 = sort_key wwpn all_fab;
          st2 = wwpn_loop [] all_fab1 st1;
          all_fab2 = sort_key sort_cabkeys all_fab1;
          st3 = name_loop '' '' '' '' '' '' all_fab2 st2;
          st4 = (if cabchk = ''Y'' \<and> \<not> dupname_error st3
                 then cable_loop '' '' None all_fab2 st3 else st3)
      in (all_fab2, st4))"

text \<open>The reports of the per-row checks on one row, and the rows that pass them.\<close>

definition row_reports :: "string \<Rightarrow> row \<Rightarrow> message list" where
  "row_reports strict rec = printed (check_row strict rec initial_vstate)"

definition passes :: "string \<Rightarrow> row \<Rightarrow> bool" where
  "passes strict rec \<longleftrightarrow> row_reports strict rec = []"

text \<open>
  The reports of sections 2a and 2b and of the cable check, run on a list of rows with no
  report before them.
\<close>

definition cross_reports :: "string \<Rightarrow> row list \<Rightarrow> message list" where
  "cross_reports cabchk rows =
     (let all_fab1 = sort_key wwpn rows;
          st2 = wwpn_loop [] all_fab1 initial_vstate;
          all_fab2 = sort_key sort_cabkeys all_fab1;
          st3 = name_loop '' '' '' '' '' '' all_fab2 st2;
          st4 = (if cabchk = ''Y'' \<and> \<not> dupname_error st3
                 then cable_loop '' '' None all_fab2 st3 else st3)
      in printed st4)"

section \<open>Emission (sections 3 and 4 of the script)\<close>

datatype cmd =
    Comment string
  | AliCreate string string
  | ZoneCreate string string
  | ZoneAdd string string
  | CfgCreate string string
  | CfgAdd string string
  | CfgClear
  | CfgDisable
  | CfgSave

text \<open>The text each write puts into the file; only \<^verbatim>\<open>cfgSave\<close> has no line end.\<close>

definition quoted :: "string \<Rightarrow> string \<Rightarrow> string" where
  "quoted a b = [CHR 0x22] @ a @ [CHR 0x22] @ '', '' @ [CHR 0x22] @ b @ [CHR 0x22, CHR 0x0A]"

fun render :: "cmd \<Rightarrow> string" where
  "render (Comment s) = s @ [CHR 0x0A]"
| "render (AliCreate n w) = ''aliCreate '' @ quoted n w"
| "render (ZoneCreate z a) = ''zoneCreate '' @ quoted z a"
| "render (ZoneAdd z a) = ''zoneAdd    '' @ quoted z a"
| "render (CfgCreate c z) = ''cfgCreate '' @ quoted c z"
| "render (CfgAdd c z) = ''cfgAdd    '' @ quoted c z"
| "render CfgClear = ''cfgClear'' @ [CHR 0x0A]"
| "render CfgDisable = ''cfgDisable'' @ [CHR 0x0A]"
| "render CfgSave = ''cfgSave''"

definition sort_ALIif :: "row \<Rightarrow> string" where
  "sort_ALIif salitgt = node salitgt @ primaryif salitgt @ subif salitgt"

definition sort_ITif :: "row \<Rightarrow> string" where
  "sort_ITif sinitgt = initgt sinitgt @ node sinitgt @ primaryif sinitgt @ subif sinitgt"

text \<open>The alias loop: the commands of the two alias files, in order.\<close>

fun alias_loop :: "row list \<Rightarrow> cmd list \<times> cmd list \<Rightarrow> cmd list \<times> cmd list" where
  "alias_loop [] acc = acc"
| "alias_loop (devrow # rest) (afabali, bfabali) =
     (let aliline = AliCreate (alias_format devrow) (wwpn devrow)
      in if fabric devrow = ''A'' then alias_loop rest (afabali @ [aliline], bfabali)
         else alias_loop rest (afabali, bfabali @ [aliline]))"

fun split_loop :: "row list \<Rightarrow> row list \<times> row list \<Rightarrow> row list \<times> row list" where
  "split_loop [] acc = acc"
| "split_loop (devrow # rest) (INI_list, TGT_list) =
     (if initgt devrow = ''I'' then split_loop rest (INI_list @ [devrow], TGT_list)
      else split_loop rest (INI_list, TGT_list @ [devrow]))"

text \<open>
  The state of the zoning loops. The three \<open>last_\<close> variables start as \<^verbatim>\<open>None\<close>
  and are shared by both fabrics.
\<close>

record zstate =
  last_ininode :: "string option"
  last_iniprime :: "string option"
  last_tgtnode :: "string option"
  cfga_count :: nat
  cfgb_count :: nat
  afabzon :: "cmd list"
  bfabzon :: "cmd list"
  afabcfg :: "cmd list"
  bfabcfg :: "cmd list"

definition initial_zstate :: zstate where
  "initial_zstate =
     \<lparr>last_ininode = None, last_iniprime = None, last_tgtnode = None,
      cfga_count = 0, cfgb_count = 0, afabzon = [], bfabzon = [], afabcfg = [], bfabcfg = []\<rparr>"

text \<open>The body of the inner loop, for one initiator row and one target row.\<close>

definition zone_step :: "string \<Rightarrow> row \<Rightarrow> row \<Rightarrow> zstate \<Rightarrow> zstate" where
  "zone_step cfgname inirow tgtrow st =
     (if fabric inirow \<noteq> fabric tgtrow then st
      else
        let inode = node inirow;
            iprime = primaryif inirow;
            initali = alias_format inirow;
            tnode = node tgtrow;
            zoname = ''zon_'' @ inode @ ''_'' @ iprime @ ''_'' @ tnode;
            zonali = alias_format tgtrow;
            unchanged = (Some inode = last_ininode st \<and> Some iprime = last_iniprime st
                         \<and> Some tnode = last_tgtnode st);
            zonline = (if unchanged then ZoneAdd zoname zonali else ZoneCreate zoname initali);
            zonline2 = (if unchanged then None else Some (ZoneAdd zoname zonali));
            st' =
              (if fabric inirow = ''A'' then
                 (case zonline2 of
                    None \<Rightarrow> st\<lparr>afabzon := afabzon st @ [zonline]\<rparr>
                  | Some z2 \<Rightarrow>
                      st\<lparr>afabzon := afabzon st @ [zonline, z2],
                         cfga_count := cfga_count st + 1,
                         afabcfg := afabcfg st @
                           [if cfga_count st + 1 = 1 then CfgCreate cfgname zoname
                            else CfgAdd cfgname zoname]\<rparr>)
               else
                 (case zonline2 of
                    None \<Rightarrow> st\<lparr>bfabzon := bfabzon st @ [zonline]\<rparr>
                  | Some z2 \<Rightarrow>
                      st\<lparr>bfabzon := bfabzon st @ [zonline, z2],
                         cfgb_count := cfgb_count st + 1,
                         bfabcfg := bfabcfg st @
                           [if cfgb_count st + 1 = 1 then CfgCreate cfgname zoname
                            else CfgAdd cfgname zoname]\<rparr>))
        in st'\<lparr>last_ininode := Some inode, last_iniprime := Some iprime,
               last_tgtnode := Some tnode\<rparr>)"

definition zone_loops :: "string \<Rightarrow> row list \<Rightarrow> row list \<Rightarrow> zstate" where
  "zone_loops cfgname INI_list TGT_list =
     fold (\<lambda>inirow. fold (zone_step cfgname inirow) TGT_list) INI_list initial_zstate"

text \<open>
  The zoning state of a run that found no error: the two sorts, the split and the loops.
  \<open>cfgname\<close> is the configuration name, which the script takes from the date.
\<close>

definition zone_plan :: "string \<Rightarrow> row list \<Rightarrow> zstate" where
  "zone_plan cfgname all_fab =
     (let all_fab3 = sort_key sort_ALIif all_fab;
          all_fab4 = sort_key sort_ITif all_fab3;
          (INI_list, TGT_list) = split_loop all_fab4 ([], [])
      in zone_loops cfgname INI_list TGT_list)"

datatype fname = Afab_ali | Bfab_ali | Afab_zon | Bfab_zon | Afab_cfg | Bfab_cfg

text \<open>The six files as sections 3 and 4 write them: a file is the list of its writes.\<close>

definition emit :: "string \<Rightarrow> row list \<Rightarrow> fname \<Rightarrow> cmd list option" where
  "emit cfgname all_fab =
     (let all_fab3 = sort_key sort_ALIif all_fab;
          (afabali, bfabali) = alias_loop all_fab3 ([], []);
          z = zone_plan cfgname all_fab
      in (\<lambda>f. Some (case f of
            Afab_ali \<Rightarrow> Comment ''# Alias create commands for fabric A'' # afabali
          | Bfab_ali \<Rightarrow> Comment ''# Alias create commands for fabric B'' # bfabali
          | Afab_zon \<Rightarrow> Comment ''# Zone create commands for fabric A'' # afabzon z
          | Bfab_zon \<Rightarrow> Comment ''# Zone create commands for fabric B'' # bfabzon z
          | Afab_cfg \<Rightarrow> [Comment ''# Switch config commands for fabric A'', CfgClear, CfgDisable]
                          @ afabcfg z @ [CfgSave]
          | Bfab_cfg \<Rightarrow> [Comment ''# Switch config commands for fabric B'', CfgClear, CfgDisable]
                          @ bfabcfg z @ [CfgSave])))"

section \<open>The whole run\<close>

text \<open>
  The script removes the six output files before it reads its input, so a run starts with
  none of them. With \<open>errors_found\<close> set it calls \<^verbatim>\<open>exit(1)\<close> before any file is
  opened; otherwise it writes the six files and ends, with exit status 0.
\<close>

record outcome =
  exit_status :: nat
  files :: "fname \<Rightarrow> cmd list option"
  reports :: "message list"

definition run :: "string \<Rightarrow> string \<Rightarrow> string \<Rightarrow> row list \<Rightarrow> outcome" where
  "run strict cabchk cfgname all_fab =
     (let (all_fab2, st) = validate strict cabchk all_fab
      in if errors_found st
         then \<lparr>exit_status = 1, files = (\<lambda>f. None), reports = printed st\<rparr>
         else \<lparr>exit_status = 0, files = emit cfgname all_fab2, reports = printed st\<rparr>)"

section \<open>Notions of the specification\<close>

text \<open>
  The definitions of this section follow the words of the specification, not the code;
  the theorems compare the code with them.
\<close>

text \<open>A hex digit in lower case, and a hex digit of either case.\<close>

definition lower_hex :: "char \<Rightarrow> bool" where
  "lower_hex c \<longleftrightarrow> c \<in> set ''0123456789abcdef''"

definition either_hex :: "char \<Rightarrow> bool" where
  "either_hex c \<longleftrightarrow> c \<in> set ''0123456789abcdefABCDEF''"

text \<open>The canonical rendering: byte pairs separated by colons.\<close>

fun colon_pairs :: "string \<Rightarrow> string" where
  "colon_pairs (a # b # c # rest) = a # b # CHR '':'' # colon_pairs (c # rest)"
| "colon_pairs s = s"

text \<open>The hex digits of a string: case-fold every character, keep 0-9 and a-f.\<close>

definition spec_hex_digits :: "string \<Rightarrow> string" where
  "spec_hex_digits s = filter lower_hex (map lower_char s)"

text \<open>
  The strict form: 23 characters, a colon at each of the seven positions and a hex digit
  (as \<open>hex\<close> decides) at every other position.
\<close>

definition colon_positions :: "nat list" where
  "colon_positions = [2, 5, 8, 11, 14, 17, 20]"

definition strict_shape :: "(char \<Rightarrow> bool) \<Rightarrow> string \<Rightarrow> bool" where
  "strict_shape hex w \<longleftrightarrow>
     length w = 23 \<and>
     (\<forall>i \<in> set [0..<23]. if i \<in> set colon_positions then w ! i = CHR '':'' else hex (w ! i))"

text \<open>The tuples the specification sorts by, in the lexicographic order of products.\<close>

definition name_tuple :: "row \<Rightarrow> string \<times> string \<times> string" where
  "name_tuple r = (node r, primaryif r, subif r)"

definition role_name_tuple :: "row \<Rightarrow> string \<times> string \<times> string \<times> string" where
  "role_name_tuple r = (initgt r, node r, primaryif r, subif r)"

text \<open>
  Records of one width: every two rows agree in the lengths of the role, of the node name
  and of the primary interface name.
\<close>

definition same_widths :: "row list \<Rightarrow> bool" where
  "same_widths rs \<longleftrightarrow>
     (\<forall>r \<in> set rs. \<forall>r' \<in> set rs.
        length (initgt r) = length (initgt r') \<and> length (node r) = length (node r')
        \<and> length (primaryif r) = length (primaryif r'))"

text \<open>The zone name of an initiator and a target.\<close>

definition zone_name :: "row \<Rightarrow> row \<Rightarrow> string" where
  "zone_name ini tgt = ''zon_'' @ node ini @ ''_'' @ primaryif ini @ ''_'' @ node tgt"

text \<open>The alias a zone command names as its member.\<close>

fun member_alias :: "cmd \<Rightarrow> string option" where
  "member_alias (ZoneCreate z a) = Some a"
| "member_alias (ZoneAdd z a) = Some a"
| "member_alias c = None"

text \<open>
  Every \<^verbatim>\<open>zoneAdd\<close> of a stream names a zone that an earlier \<^verbatim>\<open>zoneCreate\<close> of the
  same stream created; \<open>created\<close> holds the zones created so far.
\<close>

fun adds_follow_creates :: "string list \<Rightarrow> cmd list \<Rightarrow> bool" where
  "adds_follow_creates created [] = True"
| "adds_follow_creates created (ZoneCreate z a # cs) = adds_follow_creates (z # created) cs"
| "adds_follow_creates created (ZoneAdd z a # cs) =
     (z \<in> set created \<and> adds_follow_creates created cs)"
| "adds_follow_creates created (c # cs) = adds_follow_creates created cs"

section \<open>Characters and fixed-length strings\<close>

lemma char_eq_code: "c = d \<longleftrightarrow> (of_char c :: nat) = of_char d"
  by simp

lemma keep_char_iff: "keep_char c \<longleftrightarrow> lower_hex c"
  unfolding keep_char_def lower_hex_def less_eq_char_def
  apply (simp add: char_eq_code [of c] del: of_char_eq_iff)
  apply arith
  done

lemma bad_nibble_iff: "bad_nibble c \<longleftrightarrow> \<not> lower_hex c"
  unfolding bad_nibble_def lower_hex_def less_eq_char_def less_char_def
  apply (simp add: char_eq_code [of c] del: of_char_eq_iff)
  apply arith
  done

lemma lower_hex_lower_char: "lower_hex (lower_char c) \<longleftrightarrow> either_hex c"
  unfolding lower_char_def lower_hex_def either_hex_def Let_def
  apply (simp add: char_eq_code [of c] char_eq_code [of "char_of _"] del: of_char_eq_iff)
  apply arith
  done

lemma lower_char_colon: "lower_char CHR '':'' = CHR '':''"
  by (simp add: lower_char_def)

lemma nibble_loop_iff: "nibble_loop s \<longleftrightarrow> (\<forall>c \<in> set s. lower_hex c)"
  by (induction s) (simp_all add: bad_nibble_iff)

lemma list16:
  "length (h::'a list) = 16 \<Longrightarrow>
   \<exists>a0 a1 a2 a3 a4 a5 a6 a7 a8 a9 a10 a11 a12 a13 a14 a15.
     h = [a0,a1,a2,a3,a4,a5,a6,a7,a8,a9,a10,a11,a12,a13,a14,a15]"
  by (auto simp add: numeral_eq_Suc length_Suc_conv)

lemma list23:
  "length (w::'a list) = 23 \<Longrightarrow>
   \<exists>a0 a1 a2 a3 a4 a5 a6 a7 a8 a9 a10 a11 a12 a13 a14 a15 a16 a17 a18 a19 a20 a21 a22.
     w = [a0,a1,a2,a3,a4,a5,a6,a7,a8,a9,a10,a11,a12,a13,a14,a15,a16,a17,a18,a19,a20,a21,a22]"
  by (auto simp add: numeral_eq_Suc length_Suc_conv)

lemma upt23: "[0..<23] = [0,1,2,3,4,5,6,7,8,9,10,11,12,13,14,15,16,17,18,19,20,21,22]"
  by (simp add: upt_rec)

section \<open>The loose policy\<close>

lemma loose_loop_eq: "loose_loop acc s = acc @ filter lower_hex (map lower_char s)"
  by (induction s arbitrary: acc) (simp_all add: Let_def keep_char_iff)

lemma brocadefmt_colon_pairs: "length h = 16 \<Longrightarrow> brocadefmt h = colon_pairs h"
  by (drule list16) (auto simp add: brocadefmt_def slice_def)

text \<open>
  Claim C6. For every input string, \<open>loosewwid\<close> succeeds exactly when the string holds
  16 hex characters after case folding (digits 0-9 and letters a-f, every other character
  ignored); it then returns these 16 digits, in their order, as 8 byte pairs separated by
  colons. With any other number of hex digits it fails.
\<close>

theorem loosewwid_sixteen_hex_digits:
  "loosewwid s =
     (if length (spec_hex_digits s) = 16 then Inr (colon_pairs (spec_hex_digits s))
      else Inl InvalidLength)"
  by (simp add: loosewwid_def loose_loop_eq spec_hex_digits_def brocadefmt_colon_pairs)

theorem loosewwid_sixteen_hex_digits_witness:
  "loosewwid ''50-06-01-6A 3B:E0:1c.F2'' = Inr ''50:06:01:6a:3b:e0:1c:f2''
   \<and> loosewwid ''50:06:01:6a:3b:e0:1c'' = Inl InvalidLength"
proof -
  have a: "length (spec_hex_digits ''50-06-01-6A 3B:E0:1c.F2'') = 16" by code_simp
  have b: "colon_pairs (spec_hex_digits ''50-06-01-6A 3B:E0:1c.F2'') = ''50:06:01:6a:3b:e0:1c:f2''"
    by code_simp
  have c: "length (spec_hex_digits ''50:06:01:6a:3b:e0:1c'') \<noteq> 16" by code_simp
  show ?thesis
    using loosewwid_sixteen_hex_digits [of "''50-06-01-6A 3B:E0:1c.F2''"]
      loosewwid_sixteen_hex_digits [of "''50:06:01:6a:3b:e0:1c''"] a b c
    by simp
qed

section \<open>The strict policy\<close>

lemma strictwwid_shape: "strict_shape lower_hex w \<Longrightarrow> strictwwid w = Inr w"
  unfolding strict_shape_def
  apply (erule conjE)
  apply (drule list23)
  apply (elim exE)
  apply (simp only: upt23)
  apply (simp add: colon_positions_def strictwwid_def slice_def nibble_loop_iff bad_nibble_iff)
  done

lemma strict_shape_lower:
  "strict_shape either_hex w \<Longrightarrow> strict_shape lower_hex (map lower_char w)"
  unfolding strict_shape_def
  by (auto simp add: lower_hex_lower_char lower_char_colon)

lemma strict_shape_colon_pairs:
  "length h = 16 \<Longrightarrow> list_all lower_hex h \<Longrightarrow> strict_shape lower_hex (colon_pairs h)"
  unfolding strict_shape_def
  apply (drule list16)
  apply (elim exE)
  apply (simp only: upt23)
  apply (simp add: colon_positions_def)
  done

lemma strictwwid_upper_rejected:
  "strict_shape either_hex w \<Longrightarrow> \<not> strict_shape lower_hex w \<Longrightarrow>
   strictwwid w = Inl InvalidHexChar"
  unfolding strict_shape_def
  apply (erule conjE)
  apply (drule list23)
  apply (elim exE)
  apply (simp only: upt23)
  apply (simp add: colon_positions_def strictwwid_def slice_def nibble_loop_iff)
  done

text \<open>
  Claim C4, at the input \<^verbatim>\<open>aabbb:cc:dd:ee:ff:00:11\<close>: 23 characters, no colon at
  position 2. \<open>strictwwid\<close> reports no error and returns the string: its separator test
  fails only when none of the seven positions holds a colon.
\<close>

theorem strictwwid_accepts_misplaced_colon:
  "length ''aabbb:cc:dd:ee:ff:00:11'' = 23
   \<and> ''aabbb:cc:dd:ee:ff:00:11'' ! 2 \<noteq> CHR '':''
   \<and> strictwwid ''aabbb:cc:dd:ee:ff:00:11'' = Inr ''aabbb:cc:dd:ee:ff:00:11''"
  by (simp add: strictwwid_def slice_def bad_nibble_def)

text \<open>
  Claim C5, as amended. For every 23-character string with colons at the seven positions
  and a lower-case hex digit (0-9, a-f) at every other position, \<open>strictwwid\<close> returns
  the string unchanged. A string of that form with hex digits of either case, one of them
  in upper case, is rejected for an invalid hex character; it is accepted only once it is
  lower-cased, as the script does when it reads the column, and then the lower-cased
  string is returned. For every canonical identifier, 16 lower-case hex digits rendered as
  colon-separated pairs, \<open>strictwwid\<close> returns the rendering unchanged.
\<close>

theorem strictwwid_lower_case_identity:
  "(strict_shape lower_hex w \<longrightarrow> strictwwid w = Inr w)
   \<and> (strict_shape either_hex w \<and> \<not> strict_shape lower_hex w \<longrightarrow>
        strictwwid w = Inl InvalidHexChar)
   \<and> (strict_shape either_hex w \<longrightarrow> strictwwid (map lower_char w) = Inr (map lower_char w))
   \<and> (length h = 16 \<and> list_all lower_hex h \<longrightarrow>
        strictwwid (colon_pairs h) = Inr (colon_pairs h))"
  by (simp add: strictwwid_shape strictwwid_upper_rejected strict_shape_lower
      strict_shape_colon_pairs)

theorem strictwwid_lower_case_identity_witness:
  "strictwwid ''50:06:01:6a:3b:e0:1c:f2'' = Inr ''50:06:01:6a:3b:e0:1c:f2''
   \<and> strictwwid ''50:06:01:6A:3B:E0:1C:F2'' = Inl InvalidHexChar
   \<and> strictwwid (map lower_char ''50:06:01:6A:3B:E0:1C:F2'') = Inr ''50:06:01:6a:3b:e0:1c:f2''
   \<and> strictwwid (colon_pairs ''5006016a3be01cf2'') = Inr ''50:06:01:6a:3b:e0:1c:f2''"
proof -
  have a: "strict_shape lower_hex ''50:06:01:6a:3b:e0:1c:f2''" by code_simp
  have b: "strict_shape either_hex ''50:06:01:6A:3B:E0:1C:F2''" by code_simp
  have b': "\<not> strict_shape lower_hex ''50:06:01:6A:3B:E0:1C:F2''" by code_simp
  have c: "length ''5006016a3be01cf2'' = 16 \<and> list_all lower_hex ''5006016a3be01cf2''"
    by code_simp
  have d: "map lower_char ''50:06:01:6A:3B:E0:1C:F2'' = ''50:06:01:6a:3b:e0:1c:f2''"
    by code_simp
  have e: "colon_pairs ''5006016a3be01cf2'' = ''50:06:01:6a:3b:e0:1c:f2''"
    by code_simp
  show ?thesis
    using strictwwid_lower_case_identity
      [of "''50:06:01:6a:3b:e0:1c:f2''" "''5006016a3be01cf2''"]
      strictwwid_lower_case_identity
      [of "''50:06:01:6A:3B:E0:1C:F2''" "''5006016a3be01cf2''"] a b b' c d e
    by simp
qed

theorem strictwwid_upper_case_counterexample:
  "strict_shape either_hex ''50:06:01:6A:3B:E0:1C:F2''
   \<and> strictwwid ''50:06:01:6A:3B:E0:1C:F2'' \<noteq> Inr ''50:06:01:6A:3B:E0:1C:F2''"
  by code_simp

section \<open>The test of \<open>errors_found\<close> before emission\<close>

lemma check_fields_flag:
  "errors_found st = (printed st \<noteq> []) \<Longrightarrow>
   errors_found (check_fields rec w st) = (printed (check_fields rec w st) \<noteq> [])"
  by (simp add: check_fields_def report_def)

lemma check_row_flag:
  "errors_found st = (printed st \<noteq> []) \<Longrightarrow>
   errors_found (check_row strict rec st) = (printed (check_row strict rec st) \<noteq> [])"
  by (simp add: check_row_def check_fields_flag report_def split: sum.split)

lemma fold_check_row_flag:
  "errors_found st = (printed st \<noteq> []) \<Longrightarrow>
   errors_found (fold (check_row strict) rows st)
     = (printed (fold (check_row strict) rows st) \<noteq> [])"
  by (induction rows arbitrary: st) (simp_all add: check_row_flag)

lemma wwpn_loop_flag:
  "errors_found st = (printed st \<noteq> []) \<Longrightarrow>
   errors_found (wwpn_loop l rows st) = (printed (wwpn_loop l rows st) \<noteq> [])"
  by (induction rows arbitrary: st l) (simp_all add: Let_def report_def)

lemma name_loop_flag:
  "errors_found st = (printed st \<noteq> []) \<Longrightarrow>
   errors_found (name_loop a b c rows st) = (printed (name_loop a b c rows st) \<noteq> [])"
  by (induction rows arbitrary: st a b c) (simp_all add: Let_def report_def)

lemma cable_loop_flag:
  "errors_found st = (printed st \<noteq> []) \<Longrightarrow>
   errors_found (cable_loop f l rows st) = (printed (cable_loop f l rows st) \<noteq> [])"
  by (induction rows arbitrary: st f l) (simp_all add: Let_def report_def)

lemma validate_flag:
  "errors_found (snd (validate strict cabchk rows))
     = (printed (snd (validate strict cabchk rows)) \<noteq> [])"
  unfolding validate_def Let_def
  by (simp add: cable_loop_flag name_loop_flag wwpn_loop_flag fold_check_row_flag
      initial_vstate_def)

lemma reports_run:
  "reports (run strict cabchk cfgname rows) = printed (snd (validate strict cabchk rows))"
  by (simp add: run_def case_prod_beta)

lemma run_failed:
  "printed (snd (validate strict cabchk rows)) \<noteq> [] \<Longrightarrow>
   exit_status (run strict cabchk cfgname rows) = 1
   \<and> files (run strict cabchk cfgname rows) = (\<lambda>f. None)"
  using validate_flag [of strict cabchk rows]
  by (simp add: run_def case_prod_beta)

lemma run_passed:
  "printed (snd (validate strict cabchk rows)) = [] \<Longrightarrow>
   exit_status (run strict cabchk cfgname rows) = 0
   \<and> files (run strict cabchk cfgname rows) = emit cfgname (fst (validate strict cabchk rows))"
  using validate_flag [of strict cabchk rows]
  by (simp add: run_def case_prod_beta)

lemma emit_all_files: "emit cfgname rows f \<noteq> None"
  by (simp add: emit_def Let_def split: prod.split)

text \<open>
  Claim C1. A run whose validation reports at least one error, the cable warning of an
  enabled cable check included, writes none of the six files and ends with a nonzero exit
  status; a run that reports no error writes all six files and ends with exit status 0.
\<close>

theorem error_set_gates_emission:
  "(reports (run strict cabchk cfgname rows) \<noteq> [] \<longrightarrow>
      exit_status (run strict cabchk cfgname rows) \<noteq> 0
      \<and> (\<forall>f. files (run strict cabchk cfgname rows) f = None))
   \<and> (reports (run strict cabchk cfgname rows) = [] \<longrightarrow>
      exit_status (run strict cabchk cfgname rows) = 0
      \<and> (\<forall>f. files (run strict cabchk cfgname rows) f \<noteq> None))"
  by (simp add: reports_run run_failed run_passed emit_all_files)

text \<open>
  Two rows with distinct names and identifiers, both on fabric A: with the cable check
  enabled the only report is the cable warning, with the check disabled there is none.
\<close>

theorem error_set_gates_emission_witness:
  "reports (run ''S'' ''Y'' ''cfg''
      [\<lparr>node = ''n1'', primaryif = ''p1'', subif = [], fabric = ''A'', initgt = ''I'',
         wwpn = ''50:06:01:6a:3b:e0:1c:f2''\<rparr>,
       \<lparr>node = ''n2'', primaryif = ''p1'', subif = [], fabric = ''A'', initgt = ''T'',
         wwpn = ''50:06:01:6a:3b:e0:1c:f3''\<rparr>]) \<noteq> []
   \<and> exit_status (run ''S'' ''Y'' ''cfg''
      [\<lparr>node = ''n1'', primaryif = ''p1'', subif = [], fabric = ''A'', initgt = ''I'',
         wwpn = ''50:06:01:6a:3b:e0:1c:f2''\<rparr>,
       \<lparr>node = ''n2'', primaryif = ''p1'', subif = [], fabric = ''A'', initgt = ''T'',
         wwpn = ''50:06:01:6a:3b:e0:1c:f3''\<rparr>]) \<noteq> 0
   \<and> (\<forall>f. files (run ''S'' ''Y'' ''cfg''
      [\<lparr>node = ''n1'', primaryif = ''p1'', subif = [], fabric = ''A'', initgt = ''I'',
         wwpn = ''50:06:01:6a:3b:e0:1c:f2''\<rparr>,
       \<lparr>node = ''n2'', primaryif = ''p1'', subif = [], fabric = ''A'', initgt = ''T'',
         wwpn = ''50:06:01:6a:3b:e0:1c:f3''\<rparr>]) f = None)
   \<and> exit_status (run ''S'' ''N'' ''cfg''
      [\<lparr>node = ''n1'', primaryif = ''p1'', subif = [], fabric = ''A'', initgt = ''I'',
         wwpn = ''50:06:01:6a:3b:e0:1c:f2''\<rparr>,
       \<lparr>node = ''n2'', primaryif = ''p1'', subif = [], fabric = ''A'', initgt = ''T'',
         wwpn = ''50:06:01:6a:3b:e0:1c:f3''\<rparr>]) = 0
   \<and> (\<forall>f. files (run ''S'' ''N'' ''cfg''
      [\<lparr>node = ''n1'', primaryif = ''p1'', subif = [], fabric = ''A'', initgt = ''I'',
         wwpn = ''50:06:01:6a:3b:e0:1c:f2''\<rparr>,
       \<lparr>node = ''n2'', primaryif = ''p1'', subif = [], fabric = ''A'', initgt = ''T'',
         wwpn = ''50:06:01:6a:3b:e0:1c:f3''\<rparr>]) f \<noteq> None)"
proof -
  let ?rows = "[\<lparr>node = ''n1'', primaryif = ''p1'', subif = [], fabric = ''A'', initgt = ''I'',
         wwpn = ''50:06:01:6a:3b:e0:1c:f2''\<rparr>,
       \<lparr>node = ''n2'', primaryif = ''p1'', subif = [], fabric = ''A'', initgt = ''T'',
         wwpn = ''50:06:01:6a:3b:e0:1c:f3''\<rparr>]"
  have a: "reports (run ''S'' ''Y'' ''cfg'' ?rows) \<noteq> []" by code_simp
  have b: "reports (run ''S'' ''N'' ''cfg'' ?rows) = []" by code_simp
  show ?thesis
    using error_set_gates_emission [of "''S''" "''Y''" "''cfg''" ?rows]
      error_set_gates_emission [of "''S''" "''N''" "''cfg''" ?rows] a b
    by blast
qed

section \<open>What the validation loop leaves in \<open>all_fab\<close>\<close>

text \<open>
  Claim C2, at a run under the loose policy with the two rows
  \<^verbatim>\<open>[n1, p1, "", A, I, 5006016a3be01cf2]\<close> and
  \<^verbatim>\<open>[n2, p1, "", B, T, 50:06:01:6a:3b:e0:1c:f2]\<close>. Both identifiers normalise to
  \<^verbatim>\<open>50:06:01:6a:3b:e0:1c:f2\<close>, yet the run reports no duplicate and the alias
  command of the first row carries the identifier as it was read.
\<close>

theorem loose_identifier_not_written_back:
  "loosewwid ''5006016a3be01cf2'' = Inr ''50:06:01:6a:3b:e0:1c:f2''
   \<and> loosewwid ''50:06:01:6a:3b:e0:1c:f2'' = Inr ''50:06:01:6a:3b:e0:1c:f2''
   \<and> reports (run ''L'' ''N'' ''cfg''
      [\<lparr>node = ''n1'', primaryif = ''p1'', subif = [], fabric = ''A'', initgt = ''I'',
         wwpn = ''5006016a3be01cf2''\<rparr>,
       \<lparr>node = ''n2'', primaryif = ''p1'', subif = [], fabric = ''B'', initgt = ''T'',
         wwpn = ''50:06:01:6a:3b:e0:1c:f2''\<rparr>]) = []
   \<and> files (run ''L'' ''N'' ''cfg''
      [\<lparr>node = ''n1'', primaryif = ''p1'', subif = [], fabric = ''A'', initgt = ''I'',
         wwpn = ''5006016a3be01cf2''\<rparr>,
       \<lparr>node = ''n2'', primaryif = ''p1'', subif = [], fabric = ''B'', initgt = ''T'',
         wwpn = ''50:06:01:6a:3b:e0:1c:f2''\<rparr>]) Afab_ali
     = Some [Comment ''# Alias create commands for fabric A'',
             AliCreate ''ali_n1_p1_FA'' ''5006016a3be01cf2'']
   \<and> files (run ''L'' ''N'' ''cfg''
      [\<lparr>node = ''n1'', primaryif = ''p1'', subif = [], fabric = ''A'', initgt = ''I'',
         wwpn = ''5006016a3be01cf2''\<rparr>,
       \<lparr>node = ''n2'', primaryif = ''p1'', subif = [], fabric = ''B'', initgt = ''T'',
         wwpn = ''50:06:01:6a:3b:e0:1c:f2''\<rparr>]) Bfab_ali
     = Some [Comment ''# Alias create commands for fabric B'',
             AliCreate ''ali_n2_p1_FB'' ''50:06:01:6a:3b:e0:1c:f2'']"
  by code_simp

lemma check_row_printed:
  "printed (check_row strict rec st) = printed st @ row_reports strict rec"
  by (simp add: row_reports_def check_row_def check_fields_def report_def initial_vstate_def
      split: sum.split)

lemma check_row_dupname: "dupname_error (check_row strict rec st) = dupname_error st"
  by (simp add: check_row_def check_fields_def report_def split: sum.split)

lemma fold_check_row_printed:
  "printed (fold (check_row strict) rows st)
     = printed st @ concat (map (row_reports strict) rows)"
  by (induction rows arbitrary: st) (simp_all add: check_row_printed)

lemma fold_check_row_dupname:
  "dupname_error (fold (check_row strict) rows st) = dupname_error st"
  by (induction rows arbitrary: st) (simp_all add: check_row_dupname)

lemma wwpn_loop_printed:
  "printed st = p @ printed st' \<Longrightarrow>
   printed (wwpn_loop l rows st) = p @ printed (wwpn_loop l rows st')"
proof (induction rows arbitrary: st st' l)
  case Nil
  then show ?case by simp
next
  case (Cons r rows)
  show ?case
  proof (cases "wwpn r \<noteq> l")
    case True
    then show ?thesis using Cons.IH [OF Cons.prems] by (simp add: Let_def)
  next
    case False
    have "printed (report (DuplicateWwpn (wwpn r)) st)
        = p @ printed (report (DuplicateWwpn (wwpn r)) st')"
      using Cons.prems by (simp add: report_def)
    from Cons.IH [OF this] False show ?thesis by (simp add: Let_def)
  qed
qed

lemma wwpn_loop_dupname: "dupname_error (wwpn_loop l rows st) = dupname_error st"
  by (induction rows arbitrary: st l) (simp_all add: Let_def report_def)

lemma name_loop_printed:
  "printed st = p @ printed st' \<Longrightarrow>
   printed (name_loop a b c rows st) = p @ printed (name_loop a b c rows st')"
proof (induction rows arbitrary: st st' a b c)
  case Nil
  then show ?case by simp
next
  case (Cons r rows)
  show ?case
  proof (cases "node r = a \<and> primaryif r = b \<and> subif r = c")
    case True
    have "printed ((report (DuplicateName (node r) (primaryif r) (subif r)) st)
            \<lparr>dupnam_error := True\<rparr>)
        = p @ printed ((report (DuplicateName (node r) (primaryif r) (subif r)) st')
            \<lparr>dupnam_error := True\<rparr>)"
      using Cons.prems by (simp add: report_def)
    from Cons.IH [OF this] True show ?thesis by (simp add: Let_def)
  next
    case False
    then show ?thesis using Cons.IH [OF Cons.prems] by (auto simp add: Let_def)
  qed
qed

lemma name_loop_dupname: "dupname_error (name_loop a b c rows st) = dupname_error st"
  by (induction rows arbitrary: st a b c) (simp_all add: Let_def report_def)

lemma cable_loop_printed:
  "printed st = p @ printed st' \<Longrightarrow>
   printed (cable_loop f l rows st) = p @ printed (cable_loop f l rows st')"
proof (induction rows arbitrary: st st' f l)
  case Nil
  then show ?case by simp
next
  case (Cons r rows)
  show ?case
  proof (cases "fabric r = f")
    case True
    have "printed (report (CableMisconfiguration l r) st)
        = p @ printed (report (CableMisconfiguration l r) st')"
      using Cons.prems by (simp add: report_def)
    from Cons.IH [OF this] True show ?thesis by (simp add: Let_def)
  next
    case False
    then show ?thesis using Cons.IH [OF Cons.prems] by (simp add: Let_def)
  qed
qed

lemma validate_printed:
  "printed (snd (validate strict cabchk rows))
     = concat (map (row_reports strict) rows) @ cross_reports cabchk rows"
proof -
  let ?p = "concat (map (row_reports strict) rows)"
  let ?st1 = "fold (check_row strict) rows initial_vstate"
  let ?fab1 = "sort_key wwpn rows"
  let ?fab2 = "sort_key sort_cabkeys ?fab1"
  let ?st2 = "wwpn_loop [] ?fab1 ?st1"
  let ?st2' = "wwpn_loop [] ?fab1 initial_vstate"
  let ?st3 = "name_loop '' '' '' '' '' '' ?fab2 ?st2"
  let ?st3' = "name_loop '' '' '' '' '' '' ?fab2 ?st2'"
  have p1: "printed ?st1 = ?p @ printed initial_vstate"
    by (simp add: fold_check_row_printed initial_vstate_def)
  have p2: "printed ?st2 = ?p @ printed ?st2'" by (rule wwpn_loop_printed [OF p1])
  have p3: "printed ?st3 = ?p @ printed ?st3'" by (rule name_loop_printed [OF p2])
  have d: "dupname_error ?st3 = dupname_error ?st3'"
    by (simp add: name_loop_dupname wwpn_loop_dupname fold_check_row_dupname)
  have p4: "printed (cable_loop '' '' None ?fab2 ?st3)
      = ?p @ printed (cable_loop '' '' None ?fab2 ?st3')"
    by (rule cable_loop_printed [OF p3])
  show ?thesis
    unfolding validate_def cross_reports_def Let_def using p3 p4 d by simp
qed

text \<open>
  Claim C7, at a run under the strict policy with the rows
  \<^verbatim>\<open>[n1, p1, "", A, I, 50:06:01:6a:3b:e0:1c:f2]\<close> and
  \<^verbatim>\<open>[n2, p1, "", B, X, 50:06:01:6a:3b:e0:1c:f2]\<close>. The second row fails the role
  test. It stays in \<open>all_fab\<close>, and the duplicate-identifier check reports a duplicate
  against it; the cross-record checks run on the passing rows alone report nothing.
\<close>

theorem rejected_row_reaches_duplicate_check:
  "\<not> passes ''S''
       \<lparr>node = ''n2'', primaryif = ''p1'', subif = [], fabric = ''B'', initgt = ''X'',
         wwpn = ''50:06:01:6a:3b:e0:1c:f2''\<rparr>
   \<and> reports (run ''S'' ''N'' ''cfg''
      [\<lparr>node = ''n1'', primaryif = ''p1'', subif = [], fabric = ''A'', initgt = ''I'',
         wwpn = ''50:06:01:6a:3b:e0:1c:f2''\<rparr>,
       \<lparr>node = ''n2'', primaryif = ''p1'', subif = [], fabric = ''B'', initgt = ''X'',
         wwpn = ''50:06:01:6a:3b:e0:1c:f2''\<rparr>])
     = [InvalidInitTgt ''50:06:01:6a:3b:e0:1c:f2'', DuplicateWwpn ''50:06:01:6a:3b:e0:1c:f2'']
   \<and> cross_reports ''N'' (filter (passes ''S'')
      [\<lparr>node = ''n1'', primaryif = ''p1'', subif = [], fabric = ''A'', initgt = ''I'',
         wwpn = ''50:06:01:6a:3b:e0:1c:f2''\<rparr>,
       \<lparr>node = ''n2'', primaryif = ''p1'', subif = [], fabric = ''B'', initgt = ''X'',
         wwpn = ''50:06:01:6a:3b:e0:1c:f2''\<rparr>]) = []"
  by code_simp

section \<open>The cable check after a duplicate name\<close>

text \<open>
  Claim C3, at a run with the cable check enabled and two rows of the same name
  \<^verbatim>\<open>(n1, p1, "")\<close>, both on fabric A, with different identifiers. The duplicate name
  is reported and the cable check still runs and reports its warning.
\<close>

theorem cable_check_runs_after_duplicate_name:
  "reports (run ''S'' ''Y'' ''cfg''
      [\<lparr>node = ''n1'', primaryif = ''p1'', subif = [], fabric = ''A'', initgt = ''I'',
         wwpn = ''50:06:01:6a:3b:e0:1c:f2''\<rparr>,
       \<lparr>node = ''n1'', primaryif = ''p1'', subif = [], fabric = ''A'', initgt = ''T'',
         wwpn = ''50:06:01:6a:3b:e0:1c:f3''\<rparr>])
   = [DuplicateName ''n1'' ''p1'' [],
      CableMisconfiguration
        (Some \<lparr>node = ''n1'', primaryif = ''p1'', subif = [], fabric = ''A'', initgt = ''I'',
               wwpn = ''50:06:01:6a:3b:e0:1c:f2''\<rparr>)
        \<lparr>node = ''n1'', primaryif = ''p1'', subif = [], fabric = ''A'', initgt = ''T'',
          wwpn = ''50:06:01:6a:3b:e0:1c:f3''\<rparr>]"
  by code_simp

section \<open>The two sorts before emission\<close>

lemma append_le_same_length:
  "length a = length a' \<Longrightarrow>
   (a @ b \<le> a' @ b') = (a < a' \<or> a = a' \<and> b \<le> (b' :: 'a :: linorder list))"
  by (induction a a' rule: list_induct2) auto

lemma sorted_map_mono:
  "sorted (map f xs) \<Longrightarrow> (\<forall>x \<in> set xs. \<forall>y \<in> set xs. f x \<le> f y \<longrightarrow> g x \<le> g y) \<Longrightarrow>
   sorted (map g xs)"
  by (induction xs) auto

lemma pair_le_of_append:
  fixes a a' b b' :: "'a :: linorder list" and c c' :: "'b :: order"
  assumes "length a = length a'" and "a @ b \<le> a' @ b'" and "a = a' \<Longrightarrow> b \<le> b' \<Longrightarrow> c \<le> c'"
  shows "(a, c) \<le> (a', c')"
proof -
  from assms(1,2) have "a < a' \<or> a = a' \<and> b \<le> b'"
    by (simp add: append_le_same_length)
  then show ?thesis
  proof
    assume "a < a'"
    then show ?thesis by (simp add: less_eq_prod_def)
  next
    assume "a = a' \<and> b \<le> b'"
    then show ?thesis using assms(3) by (simp add: less_eq_prod_def)
  qed
qed

lemma ALIif_le_tuple:
  assumes "length (node r) = length (node r')"
    and "length (primaryif r) = length (primaryif r')"
    and "sort_ALIif r \<le> sort_ALIif r'"
  shows "name_tuple r \<le> name_tuple r'"
proof -
  have le: "node r @ (primaryif r @ subif r) \<le> node r' @ (primaryif r' @ subif r')"
    using assms(3) by (simp add: sort_ALIif_def)
  have inner: "primaryif r @ subif r \<le> primaryif r' @ subif r' \<Longrightarrow>
      (primaryif r, subif r) \<le> (primaryif r', subif r')"
    by (rule pair_le_of_append [OF assms(2)])
  have "(node r, primaryif r, subif r) \<le> (node r', primaryif r', subif r')"
    by (rule pair_le_of_append [OF assms(1) le]) (rule inner)
  then show ?thesis by (simp add: name_tuple_def)
qed

lemma ITif_le_tuple:
  assumes "length (initgt r) = length (initgt r')"
    and "length (node r) = length (node r')"
    and "length (primaryif r) = length (primaryif r')"
    and "sort_ITif r \<le> sort_ITif r'"
  shows "role_name_tuple r \<le> role_name_tuple r'"
proof -
  have le: "initgt r @ (node r @ primaryif r @ subif r)
      \<le> initgt r' @ (node r' @ primaryif r' @ subif r')"
    using assms(4) by (simp add: sort_ITif_def)
  have inner: "node r @ primaryif r @ subif r \<le> node r' @ primaryif r' @ subif r' \<Longrightarrow>
      (node r, primaryif r, subif r) \<le> (node r', primaryif r', subif r')"
    using ALIif_le_tuple [OF assms(2,3)] by (simp add: sort_ALIif_def name_tuple_def)
  have "(initgt r, node r, primaryif r, subif r) \<le> (initgt r', node r', primaryif r', subif r')"
    by (rule pair_le_of_append [OF assms(1) le]) (rule inner)
  then show ?thesis by (simp add: role_name_tuple_def)
qed

lemma same_widths_ALIif:
  assumes "same_widths rs"
  shows "sorted (map name_tuple (sort_key sort_ALIif rs))"
proof (rule sorted_map_mono [where f = sort_ALIif])
  show "sorted (map sort_ALIif (sort_key sort_ALIif rs))" by (rule sorted_sort_key)
  show "\<forall>x \<in> set (sort_key sort_ALIif rs). \<forall>y \<in> set (sort_key sort_ALIif rs).
      sort_ALIif x \<le> sort_ALIif y \<longrightarrow> name_tuple x \<le> name_tuple y"
    using assms unfolding same_widths_def set_sort by (blast intro: ALIif_le_tuple)
qed

lemma same_widths_ITif:
  assumes "same_widths rs"
  shows "sorted (map role_name_tuple (sort_key sort_ITif rs))"
proof (rule sorted_map_mono [where f = sort_ITif])
  show "sorted (map sort_ITif (sort_key sort_ITif rs))" by (rule sorted_sort_key)
  show "\<forall>x \<in> set (sort_key sort_ITif rs). \<forall>y \<in> set (sort_key sort_ITif rs).
      sort_ITif x \<le> sort_ITif y \<longrightarrow> role_name_tuple x \<le> role_name_tuple y"
    using assms unfolding same_widths_def set_sort by (blast intro: ITif_le_tuple)
qed

text \<open>
  Claim C9, at a run under the strict policy, cable check off, with the initiator
  \<^verbatim>\<open>[h, hba, "", A, I, 10:00:00:00:00:00:00:01]\<close> and the targets
  \<^verbatim>\<open>[a, b, "", A, T, 50:00:00:00:00:00:00:01]\<close>,
  \<^verbatim>\<open>[ab, a, "", A, T, 50:00:00:00:00:00:00:02]\<close> and
  \<^verbatim>\<open>[a, c, "", A, T, 50:00:00:00:00:00:00:03]\<close>. Validation reports nothing. Both
  sorts put the target of node \<^verbatim>\<open>ab\<close> between the two targets of node \<^verbatim>\<open>a\<close>: the
  keys are the strings \<^verbatim>\<open>ab\<close>, \<^verbatim>\<open>aba\<close>, \<^verbatim>\<open>ac\<close>. Neither result is in the order
  of the tuples, and the zone \<^verbatim>\<open>zon_h_hba_a\<close> is created twice.
\<close>

theorem concatenated_key_breaks_tuple_order:
  "reports (run ''S'' ''N'' ''cfg''
      [\<lparr>node = ''h'', primaryif = ''hba'', subif = [], fabric = ''A'', initgt = ''I'',
         wwpn = ''10:00:00:00:00:00:00:01''\<rparr>,
       \<lparr>node = ''a'', primaryif = ''b'', subif = [], fabric = ''A'', initgt = ''T'',
         wwpn = ''50:00:00:00:00:00:00:01''\<rparr>,
       \<lparr>node = ''ab'', primaryif = ''a'', subif = [], fabric = ''A'', initgt = ''T'',
         wwpn = ''50:00:00:00:00:00:00:02''\<rparr>,
       \<lparr>node = ''a'', primaryif = ''c'', subif = [], fabric = ''A'', initgt = ''T'',
         wwpn = ''50:00:00:00:00:00:00:03''\<rparr>]) = []
   \<and> map name_tuple (sort_key sort_ALIif (fst (validate ''S'' ''N''
      [\<lparr>node = ''h'', primaryif = ''hba'', subif = [], fabric = ''A'', initgt = ''I'',
         wwpn = ''10:00:00:00:00:00:00:01''\<rparr>,
       \<lparr>node = ''a'', primaryif = ''b'', subif = [], fabric = ''A'', initgt = ''T'',
         wwpn = ''50:00:00:00:00:00:00:01''\<rparr>,
       \<lparr>node = ''ab'', primaryif = ''a'', subif = [], fabric = ''A'', initgt = ''T'',
         wwpn = ''50:00:00:00:00:00:00:02''\<rparr>,
       \<lparr>node = ''a'', primaryif = ''c'', subif = [], fabric = ''A'', initgt = ''T'',
         wwpn = ''50:00:00:00:00:00:00:03''\<rparr>])))
     = [(''a'', ''b'', []), (''ab'', ''a'', []), (''a'', ''c'', []), (''h'', ''hba'', [])]
   \<and> \<not> sorted [(''a'', ''b'', []), (''ab'', ''a'', []), (''a'', ''c'', []),
                 (''h'', ''hba'', ([] :: string))]
   \<and> map role_name_tuple (sort_key sort_ITif (sort_key sort_ALIif (fst (validate ''S'' ''N''
      [\<lparr>node = ''h'', primaryif = ''hba'', subif = [], fabric = ''A'', initgt = ''I'',
         wwpn = ''10:00:00:00:00:00:00:01''\<rparr>,
       \<lparr>node = ''a'', primaryif = ''b'', subif = [], fabric = ''A'', initgt = ''T'',
         wwpn = ''50:00:00:00:00:00:00:01''\<rparr>,
       \<lparr>node = ''ab'', primaryif = ''a'', subif = [], fabric = ''A'', initgt = ''T'',
         wwpn = ''50:00:00:00:00:00:00:02''\<rparr>,
       \<lparr>node = ''a'', primaryif = ''c'', subif = [], fabric = ''A'', initgt = ''T'',
         wwpn = ''50:00:00:00:00:00:00:03''\<rparr>]))))
     = [(''I'', ''h'', ''hba'', []), (''T'', ''a'', ''b'', []), (''T'', ''ab'', ''a'', []),
        (''T'', ''a'', ''c'', [])]
   \<and> \<not> sorted [(''I'', ''h'', ''hba'', []), (''T'', ''a'', ''b'', []), (''T'', ''ab'', ''a'', []),
                 (''T'', ''a'', ''c'', ([] :: string))]
   \<and> files (run ''S'' ''N'' ''cfg''
      [\<lparr>node = ''h'', primaryif = ''hba'', subif = [], fabric = ''A'', initgt = ''I'',
         wwpn = ''10:00:00:00:00:00:00:01''\<rparr>,
       \<lparr>node = ''a'', primaryif = ''b'', subif = [], fabric = ''A'', initgt = ''T'',
         wwpn = ''50:00:00:00:00:00:00:01''\<rparr>,
       \<lparr>node = ''ab'', primaryif = ''a'', subif = [], fabric = ''A'', initgt = ''T'',
         wwpn = ''50:00:00:00:00:00:00:02''\<rparr>,
       \<lparr>node = ''a'', primaryif = ''c'', subif = [], fabric = ''A'', initgt = ''T'',
         wwpn = ''50:00:00:00:00:00:00:03''\<rparr>]) Afab_zon
     = Some [Comment ''# Zone create commands for fabric A'',
             ZoneCreate ''zon_h_hba_a'' ''ali_h_hba_FA'',
             ZoneAdd ''zon_h_hba_a'' ''ali_a_b_FA'',
             ZoneCreate ''zon_h_hba_ab'' ''ali_h_hba_FA'',
             ZoneAdd ''zon_h_hba_ab'' ''ali_ab_a_FA'',
             ZoneCreate ''zon_h_hba_a'' ''ali_h_hba_FA'',
             ZoneAdd ''zon_h_hba_a'' ''ali_a_c_FA'']"
  by code_simp

section \<open>Zoning\<close>

text \<open>
  Claim C10, at a run with the cable check enabled and the rows
  \<^verbatim>\<open>[h, hba, p1, A, I, 10:00:00:00:00:00:00:01]\<close>,
  \<^verbatim>\<open>[h, hba, p2, B, I, 10:00:00:00:00:00:00:02]\<close>,
  \<^verbatim>\<open>[s, c, p1, A, T, 50:00:00:00:00:00:00:01]\<close> and
  \<^verbatim>\<open>[s, c, p2, B, T, 50:00:00:00:00:00:00:02]\<close>. Validation reports nothing. The zone
  file of fabric B holds one \<^verbatim>\<open>zoneAdd\<close> for \<^verbatim>\<open>zon_h_hba_s\<close> and no
  \<^verbatim>\<open>zoneCreate\<close>: the zone was created in the stream of fabric A, and the three
  \<open>last_\<close> variables are not kept per fabric.
\<close>

theorem zone_add_without_create_on_second_fabric:
  "reports (run ''S'' ''Y'' ''cfg''
      [\<lparr>node = ''h'', primaryif = ''hba'', subif = ''p1'', fabric = ''A'', initgt = ''I'',
         wwpn = ''10:00:00:00:00:00:00:01''\<rparr>,
       \<lparr>node = ''h'', primaryif = ''hba'', subif = ''p2'', fabric = ''B'', initgt = ''I'',
         wwpn = ''10:00:00:00:00:00:00:02''\<rparr>,
       \<lparr>node = ''s'', primaryif = ''c'', subif = ''p1'', fabric = ''A'', initgt = ''T'',
         wwpn = ''50:00:00:00:00:00:00:01''\<rparr>,
       \<lparr>node = ''s'', primaryif = ''c'', subif = ''p2'', fabric = ''B'', initgt = ''T'',
         wwpn = ''50:00:00:00:00:00:00:02''\<rparr>]) = []
   \<and> files (run ''S'' ''Y'' ''cfg''
      [\<lparr>node = ''h'', primaryif = ''hba'', subif = ''p1'', fabric = ''A'', initgt = ''I'',
         wwpn = ''10:00:00:00:00:00:00:01''\<rparr>,
       \<lparr>node = ''h'', primaryif = ''hba'', subif = ''p2'', fabric = ''B'', initgt = ''I'',
         wwpn = ''10:00:00:00:00:00:00:02''\<rparr>,
       \<lparr>node = ''s'', primaryif = ''c'', subif = ''p1'', fabric = ''A'', initgt = ''T'',
         wwpn = ''50:00:00:00:00:00:00:01''\<rparr>,
       \<lparr>node = ''s'', primaryif = ''c'', subif = ''p2'', fabric = ''B'', initgt = ''T'',
         wwpn = ''50:00:00:00:00:00:00:02''\<rparr>]) Bfab_zon
     = Some [Comment ''# Zone create commands for fabric B'',
             ZoneAdd ''zon_h_hba_s'' ''ali_s_c_p2_FB'']
   \<and> \<not> adds_follow_creates []
         [Comment ''# Zone create commands for fabric B'',
          ZoneAdd ''zon_h_hba_s'' ''ali_s_c_p2_FB'']"
  by code_simp

section \<open>The zone plan of one initiator and its targets\<close>

lemma split_loop_eq:
  "split_loop rows (a, b) =
     (a @ filter (\<lambda>r. initgt r = ''I'') rows, b @ filter (\<lambda>r. initgt r \<noteq> ''I'') rows)"
  by (induction rows arbitrary: a b) simp_all

lemma fold_zone_step_same_fabric:
  "fold (zone_step cfgname inirow) tgts st
     = fold (zone_step cfgname inirow) (filter (\<lambda>t. fabric t = fabric inirow) tgts) st"
proof (induction tgts arbitrary: st)
  case Nil
  show ?case by simp
next
  case (Cons t tgts)
  show ?case
  proof (cases "fabric t = fabric inirow")
    case True
    then show ?thesis using Cons.IH by simp
  next
    case False
    then have "zone_step cfgname inirow t st = st" by (simp add: zone_step_def)
    then show ?thesis using False Cons.IH by simp
  qed
qed

lemma zone_plan_eq:
  "zone_plan cfgname all_fab =
     zone_loops cfgname
       (filter (\<lambda>r. initgt r = ''I'') (sort_key sort_ITif (sort_key sort_ALIif all_fab)))
       (filter (\<lambda>r. initgt r \<noteq> ''I'') (sort_key sort_ITif (sort_key sort_ALIif all_fab)))"
  by (simp add: zone_plan_def Let_def split_loop_eq)

lemma mset_pair_cases:
  assumes "mset L = {#x, y#}"
  shows "L = [x, y] \<or> L = [y, x]"
proof -
  from assms have "size (mset L) = size {#x, y#}" by simp
  then have "length L = 2" by simp
  then obtain a b where L: "L = [a, b]"
    by (auto simp add: numeral_2_eq_2 length_Suc_conv)
  with assms have "add_mset a {#b#} = add_mset x {#y#}" by simp
  then have "a = x \<and> b = y \<or> a = y \<and> b = x"
    unfolding add_eq_conv_ex by auto
  with L show ?thesis by auto
qed

lemma alias_format_last: "fabric r \<noteq> [] \<Longrightarrow> last (alias_format r) = last (fabric r)"
  by (simp add: alias_format_def Let_def)

lemma alias_format_fabric:
  assumes "fabric r = ''A''" "fabric r' = ''B''"
  shows "alias_format r \<noteq> alias_format r'"
proof
  assume "alias_format r = alias_format r'"
  then have "last (alias_format r) = last (alias_format r')" by simp
  moreover have "last (alias_format r) = CHR ''A''"
    using assms(1) by (simp add: alias_format_last)
  moreover have "last (alias_format r') = CHR ''B''"
    using assms(2) by (simp add: alias_format_last)
  ultimately show False by simp
qed

lemma two_targets_fold:
  assumes "fabric I1 = ''A''" "fabric Ta = ''A''" "fabric Tb = ''A''"
  shows "afabzon (fold (zone_step cfgname I1) [Ta, Tb] initial_zstate) =
     (if node Ta = node Tb
      then [ZoneCreate (zone_name I1 Ta) (alias_format I1),
            ZoneAdd (zone_name I1 Ta) (alias_format Ta),
            ZoneAdd (zone_name I1 Ta) (alias_format Tb)]
      else [ZoneCreate (zone_name I1 Ta) (alias_format I1),
            ZoneAdd (zone_name I1 Ta) (alias_format Ta),
            ZoneCreate (zone_name I1 Tb) (alias_format I1),
            ZoneAdd (zone_name I1 Tb) (alias_format Tb)])"
  using assms by (simp add: zone_step_def Let_def initial_zstate_def zone_name_def)

text \<open>
  One initiator \<open>I1\<close> on fabric A, two targets \<open>T1\<close> and \<open>T2\<close> on fabric A and one
  target \<open>T3\<close> on fabric B, in any order. With \<open>Ta\<close> the one of \<open>T1\<close>, \<open>T2\<close> that
  the key \<open>sort_ITif\<close> puts first and \<open>Tb\<close> the other, the zone commands of fabric A
  are one \<^verbatim>\<open>zoneCreate\<close> and the \<^verbatim>\<open>zoneAdd\<close> of \<open>Ta\<close> and of \<open>Tb\<close> when the two
  targets have the same node name, and two \<^verbatim>\<open>zoneCreate\<close>, each with its
  \<^verbatim>\<open>zoneAdd\<close>, otherwise. No command of fabric A names the alias of \<open>T3\<close>.
\<close>

lemma zone_plan_in_key_order:
  assumes rows: "mset all_fab = {#I1, T1, T2, T3#}"
    and I1: "initgt I1 = ''I''" "fabric I1 = ''A''"
    and T1: "initgt T1 = ''T''" "fabric T1 = ''A''"
    and T2: "initgt T2 = ''T''" "fabric T2 = ''A''"
    and T3: "initgt T3 = ''T''" "fabric T3 = ''B''"
  shows "\<exists>Ta Tb. (Ta = T1 \<and> Tb = T2 \<or> Ta = T2 \<and> Tb = T1)
     \<and> sort_ITif Ta \<le> sort_ITif Tb
     \<and> afabzon (zone_plan cfgname all_fab) =
         (if node Ta = node Tb
          then [ZoneCreate (zone_name I1 Ta) (alias_format I1),
                ZoneAdd (zone_name I1 Ta) (alias_format Ta),
                ZoneAdd (zone_name I1 Ta) (alias_format Tb)]
          else [ZoneCreate (zone_name I1 Ta) (alias_format I1),
                ZoneAdd (zone_name I1 Ta) (alias_format Ta),
                ZoneCreate (zone_name I1 Tb) (alias_format I1),
                ZoneAdd (zone_name I1 Tb) (alias_format Tb)])
     \<and> (\<forall>c \<in> set (afabzon (zone_plan cfgname all_fab)).
           member_alias c \<noteq> Some (alias_format T3))"
proof -
  let ?sorted = "sort_key sort_ITif (sort_key sort_ALIif all_fab)"
  let ?INI = "filter (\<lambda>r. initgt r = ''I'') ?sorted"
  let ?TGT = "filter (\<lambda>r. initgt r \<noteq> ''I'') ?sorted"
  let ?TGTA = "filter (\<lambda>t. fabric t = fabric I1) ?TGT"
  have ms: "mset ?sorted = {#I1, T1, T2, T3#}" using rows by simp
  have "mset ?INI = {#I1#}"
    unfolding mset_filter ms using I1 T1 T2 T3 by simp
  then have INI: "?INI = [I1]" by (simp only: mset_single_iff)
  have msA: "mset ?TGTA = {#T1, T2#}"
    unfolding mset_filter ms using I1 T1 T2 T3 by simp
  have "sorted (map sort_ITif ?sorted)" by (rule sorted_sort_key)
  then have "sorted (map sort_ITif ?TGT)" by (rule sorted_filter)
  then have srt: "sorted (map sort_ITif ?TGTA)" by (rule sorted_filter)
  from mset_pair_cases [OF msA]
  obtain Ta Tb where ab: "Ta = T1 \<and> Tb = T2 \<or> Ta = T2 \<and> Tb = T1" and L: "?TGTA = [Ta, Tb]"
    by blast
  from srt L have le: "sort_ITif Ta \<le> sort_ITif Tb" by simp
  from ab T1 T2 have fab: "fabric Ta = ''A''" "fabric Tb = ''A''" by auto
  have "zone_plan cfgname all_fab = fold (zone_step cfgname I1) ?TGT initial_zstate"
    unfolding zone_plan_eq INI by (simp add: zone_loops_def)
  also have "\<dots> = fold (zone_step cfgname I1) ?TGTA initial_zstate"
    by (rule fold_zone_step_same_fabric)
  finally have plan: "zone_plan cfgname all_fab = fold (zone_step cfgname I1) [Ta, Tb] initial_zstate"
    unfolding L .
  have zon: "afabzon (zone_plan cfgname all_fab) =
         (if node Ta = node Tb
          then [ZoneCreate (zone_name I1 Ta) (alias_format I1),
                ZoneAdd (zone_name I1 Ta) (alias_format Ta),
                ZoneAdd (zone_name I1 Ta) (alias_format Tb)]
          else [ZoneCreate (zone_name I1 Ta) (alias_format I1),
                ZoneAdd (zone_name I1 Ta) (alias_format Ta),
                ZoneCreate (zone_name I1 Tb) (alias_format I1),
                ZoneAdd (zone_name I1 Tb) (alias_format Tb)])"
    unfolding plan by (rule two_targets_fold [OF I1(2) fab])
  have n1: "alias_format I1 \<noteq> alias_format T3" by (rule alias_format_fabric [OF I1(2) T3(2)])
  have n2: "alias_format Ta \<noteq> alias_format T3" by (rule alias_format_fabric [OF fab(1) T3(2)])
  have n3: "alias_format Tb \<noteq> alias_format T3" by (rule alias_format_fabric [OF fab(2) T3(2)])
  have no3: "\<forall>c \<in> set (afabzon (zone_plan cfgname all_fab)).
           member_alias c \<noteq> Some (alias_format T3)"
    unfolding zon using n1 n2 n3 by simp
  from ab le zon no3 show ?thesis by blast
qed

text \<open>
  Claim C8, at a run under the strict policy, cable check off, with the initiator
  \<^verbatim>\<open>[h, hba, "", A, I, 10:00:00:00:00:00:00:01]\<close>, the fabric-A targets
  \<^verbatim>\<open>[s, a, c, A, T, 50:00:00:00:00:00:00:01]\<close> and
  \<^verbatim>\<open>[s, ab, a, A, T, 50:00:00:00:00:00:00:02]\<close>, and the fabric-B target
  \<^verbatim>\<open>[s, b, x, B, T, 50:00:00:00:00:00:00:03]\<close>. Validation reports nothing. In the
  order of the tuples (role, node, primaryInterface, secondaryInterface) the target
  \<^verbatim>\<open>(s, a, c)\<close> comes before \<^verbatim>\<open>(s, ab, a)\<close>; the zone file of fabric A adds
  \<^verbatim>\<open>(s, ab, a)\<close> first. It holds one \<^verbatim>\<open>zoneCreate\<close> and no command for the
  target of fabric B.
\<close>

theorem zone_adds_in_concatenated_key_order:
  "reports (run ''S'' ''N'' ''cfg''
      [\<lparr>node = ''h'', primaryif = ''hba'', subif = [], fabric = ''A'', initgt = ''I'',
         wwpn = ''10:00:00:00:00:00:00:01''\<rparr>,
       \<lparr>node = ''s'', primaryif = ''a'', subif = ''c'', fabric = ''A'', initgt = ''T'',
         wwpn = ''50:00:00:00:00:00:00:01''\<rparr>,
       \<lparr>node = ''s'', primaryif = ''ab'', subif = ''a'', fabric = ''A'', initgt = ''T'',
         wwpn = ''50:00:00:00:00:00:00:02''\<rparr>,
       \<lparr>node = ''s'', primaryif = ''b'', subif = ''x'', fabric = ''B'', initgt = ''T'',
         wwpn = ''50:00:00:00:00:00:00:03''\<rparr>]) = []
   \<and> role_name_tuple
       \<lparr>node = ''s'', primaryif = ''a'', subif = ''c'', fabric = ''A'', initgt = ''T'',
         wwpn = ''50:00:00:00:00:00:00:01''\<rparr>
     < role_name_tuple
       \<lparr>node = ''s'', primaryif = ''ab'', subif = ''a'', fabric = ''A'', initgt = ''T'',
         wwpn = ''50:00:00:00:00:00:00:02''\<rparr>
   \<and> files (run ''S'' ''N'' ''cfg''
      [\<lparr>node = ''h'', primaryif = ''hba'', subif = [], fabric = ''A'', initgt = ''I'',
         wwpn = ''10:00:00:00:00:00:00:01''\<rparr>,
       \<lparr>node = ''s'', primaryif = ''a'', subif = ''c'', fabric = ''A'', initgt = ''T'',
         wwpn = ''50:00:00:00:00:00:00:01''\<rparr>,
       \<lparr>node = ''s'', primaryif = ''ab'', subif = ''a'', fabric = ''A'', initgt = ''T'',
         wwpn = ''50:00:00:00:00:00:00:02''\<rparr>,
       \<lparr>node = ''s'', primaryif = ''b'', subif = ''x'', fabric = ''B'', initgt = ''T'',
         wwpn = ''50:00:00:00:00:00:00:03''\<rparr>]) Afab_zon
     = Some [Comment ''# Zone create commands for fabric A'',
             ZoneCreate ''zon_h_hba_s'' ''ali_h_hba_FA'',
             ZoneAdd ''zon_h_hba_s'' ''ali_s_ab_a_FA'',
             ZoneAdd ''zon_h_hba_s'' ''ali_s_a_c_FA'']"
  by code_simp

end
